theory Spec2Isabelle
  imports Complex_Main "HOL-Library.AList" "HOL-Library.Log_Nat"
begin

section \<open>JavaScript values\<close>

text \<open>
  The values the session store and the pages handle. Numbers are the finite doubles, read
  as reals (comparison with a constant and the test against zero are exact on them);
  NaN is left out. \<open>truthy\<close> is the coercion JavaScript applies in \<open>!x\<close>, \<open>if (x)\<close>
  and \<open>x && y\<close>.
\<close>

datatype jsval = JUndefined | JNull | JBool bool | JNum real | JStr string

fun truthy :: "jsval \<Rightarrow> bool" where
  "truthy JUndefined = False"
| "truthy JNull = False"
| "truthy (JBool b) = b"
| "truthy (JNum x) = (x \<noteq> 0)"
| "truthy (JStr s) = (s \<noteq> [])"

text \<open>\<open>a && b\<close> yields \<open>a\<close> itself when \<open>a\<close> is falsy and \<open>b\<close> otherwise.\<close>

definition js_and :: "jsval \<Rightarrow> jsval \<Rightarrow> jsval" where
  "js_and a b = (if truthy a then b else a)"

text \<open>A plain object: own properties by name. Reading a missing property gives undefined.\<close>

type_synonym js_object = "string \<rightharpoonup> jsval"

definition js_get :: "js_object \<Rightarrow> string \<Rightarrow> jsval" where
  "js_get obj k = (case obj k of None \<Rightarrow> JUndefined | Some v \<Rightarrow> v)"

text \<open>
  Object spread \<open>{...x}\<close>: the own properties of \<open>x\<close>, and nothing when \<open>x\<close> is
  undefined or null (an absent object is \<open>None\<close>).
\<close>

definition spread :: "js_object option \<Rightarrow> js_object" where
  "spread x = (case x of None \<Rightarrow> Map.empty | Some obj \<Rightarrow> obj)"

datatype js_error = TypeError

section \<open>AuthContext.jsx: the session store\<close>

text \<open>
  The user object of the login response: \<open>id\<close>, \<open>email\<close> and a nested \<open>profile\<close> object
  that may be absent. The record is extensible: its \<open>more\<close> part stands for any further
  property the object carries.
\<close>

record account =
  acc_id :: string
  email :: string
  profile :: "js_object option"

text \<open>The four \<open>useState\<close> cells of \<open>AuthProvider\<close>, under their source names.\<close>

record 'a auth_state =
  isAuthenticated :: bool
  user :: "'a account_scheme option"
  token :: "string option"
  loading :: bool

definition auth_initial :: "'a auth_state" where
  "auth_initial = \<lparr>isAuthenticated = False, user = None, token = None, loading = True\<rparr>"

text \<open>The mount effect: the storage lookup is commented out, so only \<open>setLoading(false)\<close> runs.\<close>

definition checkExistingSession :: "'a auth_state \<Rightarrow> 'a auth_state" where
  "checkExistingSession s = s\<lparr>loading := False\<rparr>"

text \<open>
  \<open>login(userData, authToken)\<close>; the parameters are an object and a string (its JSDoc), as
  destructured from the login response at its one call site.
\<close>

definition login :: "'a account_scheme \<Rightarrow> string \<Rightarrow> 'a auth_state \<Rightarrow> 'a auth_state" where
  "login userData authToken s =
     s\<lparr>user := Some userData, token := Some authToken, isAuthenticated := True\<rparr>"

definition logout :: "'a auth_state \<Rightarrow> 'a auth_state" where
  "logout s = s\<lparr>user := None, token := None, isAuthenticated := False\<rparr>"

text \<open>
  \<open>setUser(prev => ({...prev, profile: {...prev.profile, ...updatedProfile}}))\<close>.
  With \<open>prev\<close> null, \<open>...prev\<close> is harmless but \<open>prev.profile\<close> throws a TypeError.
\<close>

definition updateUserProfile ::
  "js_object \<Rightarrow> 'a auth_state \<Rightarrow> js_error + 'a auth_state" where
  "updateUserProfile updatedProfile s =
     (case user s of
        None \<Rightarrow> Inl TypeError
      | Some prev \<Rightarrow>
          Inr (s\<lparr>user := Some (prev\<lparr>profile := Some (spread (profile prev) ++ updatedProfile)\<rparr>)\<rparr>))"

text \<open>
  \<open>isProfileComplete\<close> returns \<open>false\<close> on the guard and otherwise the value of
  \<open>age && weight && height\<close>; every caller coerces the result (\<open>!isProfileComplete()\<close>,
  a conditional).
\<close>

definition isProfileComplete :: "'a auth_state \<Rightarrow> jsval" where
  "isProfileComplete s =
     (case user s of
        None \<Rightarrow> JBool False
      | Some u \<Rightarrow>
          (case profile u of
             None \<Rightarrow> JBool False
           | Some p \<Rightarrow> js_and (js_and (js_get p ''age'') (js_get p ''weight'')) (js_get p ''height'')))"

text \<open>The operations that change the session store, and a run of them from a state.\<close>

datatype 'a auth_op =
  CheckExistingSession
| Login "'a account_scheme" string
| Logout
| UpdateProfile js_object

fun auth_step :: "'a auth_op \<Rightarrow> 'a auth_state \<Rightarrow> js_error + 'a auth_state" where
  "auth_step CheckExistingSession s = Inr (checkExistingSession s)"
| "auth_step (Login userData authToken) s = Inr (login userData authToken s)"
| "auth_step Logout s = Inr (logout s)"
| "auth_step (UpdateProfile updatedProfile) s = updateUserProfile updatedProfile s"

fun auth_run :: "'a auth_op list \<Rightarrow> 'a auth_state \<Rightarrow> js_error + 'a auth_state" where
  "auth_run [] s = Inr s"
| "auth_run (op # ops) s =
     (case auth_step op s of Inl e \<Rightarrow> Inl e | Inr s' \<Rightarrow> auth_run ops s')"

text \<open>The invariant of the session record.\<close>

definition auth_consistent :: "'a auth_state \<Rightarrow> bool" where
  "auth_consistent s = (isAuthenticated s = (token s \<noteq> None \<and> user s \<noteq> None))"

text \<open>
  A profile field as the data model types it: a number, or absent (missing, undefined or
  null).
\<close>

fun number_or_absent :: "jsval \<Rightarrow> bool" where
  "number_or_absent (JNum x) = True"
| "number_or_absent JUndefined = True"
| "number_or_absent JNull = True"
| "number_or_absent v = False"

fun present_nonzero :: "jsval \<Rightarrow> bool" where
  "present_nonzero (JNum x) = (x \<noteq> 0)"
| "present_nonzero v = False"

text \<open>The profile object of the session's user, when there is one.\<close>

definition profile_of :: "'a auth_state \<Rightarrow> js_object option" where
  "profile_of s = (case user s of None \<Rightarrow> None | Some u \<Rightarrow> profile u)"

definition profile_typed :: "js_object \<Rightarrow> bool" where
  "profile_typed p =
     (number_or_absent (js_get p ''age'') \<and> number_or_absent (js_get p ''weight'') \<and>
      number_or_absent (js_get p ''height''))"

section \<open>ProtectedRoute.jsx: the route guard\<close>

datatype 'c guard_outcome = Pending | Redirect string string | Render 'c

text \<open>
  \<open>Redirect to from\<close> is \<open><Navigate to="/login" state={{ from: location.pathname }}/>\<close>;
  \<open>Render\<close> returns the children.
\<close>

definition ProtectedRoute :: "'c \<Rightarrow> 'a auth_state \<Rightarrow> string \<Rightarrow> 'c guard_outcome" where
  "ProtectedRoute children s pathname =
     (if loading s then Pending
      else if \<not> isAuthenticated s then Redirect ''/login'' pathname
      else Render children)"

section \<open>PredictionForm.jsx: the assessment workflow\<close>

subsection \<open>The static catalog\<close>

record question =
  key :: string
  label :: string
  description :: string
  unit_suffix :: string

text \<open>An entry of \<open>diseaseConfigs\<close> (its \<open>icon\<close>, a rendered element, is left out).\<close>

record disease_config =
  title :: string
  cfg_description :: string
  cfg_color :: string
  questions :: "question list"

definition diabetes_config :: disease_config where
  "diabetes_config =
     \<lparr>title = ''Diabetes Risk Assessment'',
      cfg_description = ''Rate the severity or frequency of each symptom/factor on a scale of 0-100'',
      cfg_color = ''text-blue-600'',
      questions =
        [\<lparr>key = ''frequent_urination'', label = ''Frequent Urination'',
          description = ''How often do you need to urinate, especially at night?'',
          unit_suffix = ''%''\<rparr>,
         \<lparr>key = ''excessive_thirst'', label = ''Excessive Thirst'',
          description = ''How often do you feel unusually thirsty?'',
          unit_suffix = ''%''\<rparr>,
         \<lparr>key = ''unexplained_weight_loss'', label = ''Unexplained Weight Loss'',
          description = ''Have you lost weight without trying?'',
          unit_suffix = ''%''\<rparr>,
         \<lparr>key = ''fatigue'', label = ''Fatigue Levels'',
          description = ''How tired or fatigued do you feel regularly?'',
          unit_suffix = ''%''\<rparr>,
         \<lparr>key = ''blurred_vision'', label = ''Blurred Vision'',
          description = ''How often do you experience blurred vision?'',
          unit_suffix = ''%''\<rparr>,
         \<lparr>key = ''slow_healing'', label = ''Slow Healing Wounds'',
          description = ''Do cuts and wounds take longer to heal?'',
          unit_suffix = ''%''\<rparr>]\<rparr>"

definition heart_disease_config :: disease_config where
  "heart_disease_config =
     \<lparr>title = ''Heart Disease Risk Assessment'',
      cfg_description = ''Rate the severity or frequency of each cardiovascular symptom/factor'',
      cfg_color = ''text-red-600'',
      questions =
        [\<lparr>key = ''chest_pain'', label = ''Chest Pain Frequency'',
          description = ''How often do you experience chest pain or discomfort?'',
          unit_suffix = ''%''\<rparr>,
         \<lparr>key = ''shortness_breath'', label = ''Shortness of Breath'',
          description = ''How often are you short of breath during normal activities?'',
          unit_suffix = ''%''\<rparr>,
         \<lparr>key = ''high_blood_pressure'', label = ''Blood Pressure Concerns'',
          description = ''Rate your blood pressure levels (if known)'',
          unit_suffix = ''%''\<rparr>,
         \<lparr>key = ''cholesterol_levels'', label = ''Cholesterol Levels'',
          description = ''Rate your cholesterol concerns (if known)'',
          unit_suffix = ''%''\<rparr>,
         \<lparr>key = ''exercise_tolerance'', label = ''Exercise Intolerance'',
          description = ''How difficult is it to exercise or do physical activity?'',
          unit_suffix = ''%''\<rparr>,
         \<lparr>key = ''family_history'', label = ''Family History'',
          description = ''How strong is your family history of heart disease?'',
          unit_suffix = ''%''\<rparr>]\<rparr>"

definition thyroid_config :: disease_config where
  "thyroid_config =
     \<lparr>title = ''Thyroid Disorder Assessment'',
      cfg_description = ''Rate the severity or frequency of each thyroid-related symptom'',
      cfg_color = ''text-green-600'',
      questions =
        [\<lparr>key = ''weight_changes'', label = ''Unexplained Weight Changes'',
          description = ''Have you experienced sudden weight gain or loss?'',
          unit_suffix = ''%''\<rparr>,
         \<lparr>key = ''energy_levels'', label = ''Low Energy Levels'',
          description = ''How often do you feel unusually tired or sluggish?'',
          unit_suffix = ''%''\<rparr>,
         \<lparr>key = ''temperature_sensitivity'', label = ''Temperature Sensitivity'',
          description = ''Are you unusually sensitive to hot or cold?'',
          unit_suffix = ''%''\<rparr>,
         \<lparr>key = ''hair_skin_changes'', label = ''Hair and Skin Changes'',
          description = ''Have you noticed changes in hair or skin texture?'',
          unit_suffix = ''%''\<rparr>,
         \<lparr>key = ''mood_changes'', label = ''Mood Changes'',
          description = ''Have you experienced mood swings or depression?'',
          unit_suffix = ''%''\<rparr>,
         \<lparr>key = ''sleep_patterns'', label = ''Sleep Pattern Changes'',
          description = ''Have your sleep patterns changed significantly?'',
          unit_suffix = ''%''\<rparr>]\<rparr>"

text \<open>The own properties of the \<open>diseaseConfigs\<close> object literal, in source order.\<close>

definition diseaseConfigs :: "(string \<times> disease_config) list" where
  "diseaseConfigs =
     [(''diabetes'', diabetes_config),
      (''heart_disease'', heart_disease_config),
      (''thyroid'', thyroid_config)]"

text \<open>
  \<open>diseaseConfigs\<close> is an object literal, so its prototype is \<open>Object.prototype\<close>, and
  \<open>diseaseConfigs[diseaseType]\<close> is a property read that follows the prototype chain. These
  are the property names of \<open>Object.prototype\<close>; each holds a function (or, for
  \<open>__proto__\<close>, the prototype object): a truthy value without a \<open>questions\<close> property.
\<close>

definition object_prototype_names :: "string list" where
  "object_prototype_names =
     [''constructor'', ''hasOwnProperty'', ''isPrototypeOf'', ''propertyIsEnumerable'',
      ''toLocaleString'', ''toString'', ''valueOf'', ''__proto__'',
      ''__defineGetter__'', ''__defineSetter__'', ''__lookupGetter__'', ''__lookupSetter__'']"

datatype 'a js_member = Own 'a | Inherited | NoMember

definition diseaseConfigs_get :: "string \<Rightarrow> disease_config js_member" where
  "diseaseConfigs_get diseaseType =
     (case map_of diseaseConfigs diseaseType of
        Some disease \<Rightarrow> Own disease
      | None \<Rightarrow> if diseaseType \<in> set object_prototype_names then Inherited else NoMember)"

subsection \<open>Component state and effects\<close>

datatype step = StepForm | StepLoading | StepResults

record risk_factor =
  name :: string
  impact :: real

record prediction_data =
  disease :: string
  prediction_percentage :: real
  risk_factors :: "risk_factor list"
  timestamp :: string

text \<open>
  What \<open>await predictionsAPI.getPrediction(...)\<close> gives the handler: a response whose
  envelope \<open>{ success, statusCode, message, data? }\<close> the handler reads at \<open>success\<close> and
  \<open>data\<close> (absent on an envelope without it), or a rejection with an \<open>Error\<close>. The scoring
  itself is external; its outcome is a parameter.
\<close>

record api_response =
  success :: bool
  data :: "prediction_data option"

datatype api_outcome = Resolved api_response | Rejected string

datatype toast = ToastError string | ToastSuccess string

text \<open>
  The four \<open>useState\<close> cells of \<open>PredictionForm\<close> (\<open>formLoading\<close> is the cell the source
  calls \<open>loading\<close>), followed by the trace of what the component did to the outside: the
  toasts shown, the arguments of each \<open>getPrediction\<close> call, the \<open>navigate\<close> targets, and
  how many of the calls have settled. \<open>symptoms\<close> keeps the insertion order of the object.
\<close>

record pf_state =
  currentStep :: step
  symptoms :: "(string \<times> int) list"
  prediction :: "prediction_data option"
  formLoading :: bool
  toasts :: "toast list"
  apiCalls :: "(string \<times> (string \<times> int) list \<times> string option) list"
  navigations :: "string list"
  settled :: nat

definition pf_initial :: pf_state where
  "pf_initial =
     \<lparr>currentStep = StepForm, symptoms = [], prediction = None, formLoading = False,
      toasts = [], apiCalls = [], navigations = [], settled = 0\<rparr>"

text \<open>
  The \<open>useEffect\<close> on \<open>[diseaseType]\<close>. \<open>!disease\<close> holds only when the property read gave
  undefined. Past both guards, \<open>disease.questions.forEach\<close> fills \<open>initialSymptoms\<close> key by
  key; on an inherited member \<open>disease.questions\<close> is undefined and the call throws.
\<close>

definition initialize :: "string \<Rightarrow> 'a auth_state \<Rightarrow> pf_state \<Rightarrow> js_error + pf_state" where
  "initialize diseaseType auth s =
     (let disease = diseaseConfigs_get diseaseType in
      if disease = NoMember then
        Inr (s\<lparr>toasts := toasts s @ [ToastError ''Invalid disease type''],
               navigations := navigations s @ [''/predictions'']\<rparr>)
      else if \<not> truthy (isProfileComplete auth) then
        Inr (s\<lparr>toasts := toasts s @ [ToastError ''Please complete your profile first''],
               navigations := navigations s @ [''/profile'']\<rparr>)
      else
        (case disease of
           Own d \<Rightarrow>
             Inr (s\<lparr>symptoms :=
                    foldl (\<lambda>initialSymptoms q. AList.update (key q) 0 initialSymptoms) []
                      (questions d)\<rparr>)
         | _ \<Rightarrow> Inl TypeError))"

text \<open>
  Mounting the page: the initial cells; the first render, which returns early only under
  \<open>!currentDisease\<close> and otherwise, on the form step, maps over \<open>currentDisease.questions\<close>
  (a TypeError on an inherited member); then the effect.
\<close>

definition pf_mount :: "string \<Rightarrow> 'a auth_state \<Rightarrow> js_error + pf_state" where
  "pf_mount diseaseType auth =
     (if diseaseConfigs_get diseaseType = Inherited then Inl TypeError
      else initialize diseaseType auth pf_initial)"

text \<open>\<open>setSymptoms(prev => ({...prev, [key]: value}))\<close>: no check on the key or the value.\<close>

definition handleSymptomChange :: "string \<Rightarrow> int \<Rightarrow> pf_state \<Rightarrow> pf_state" where
  "handleSymptomChange k v s = s\<lparr>symptoms := AList.update k v (symptoms s)\<rparr>"

text \<open>
  The answers are numbers that hold integers, and \<open>sum + value\<close> adds doubles: the exact sum
  rounded to the nearest double, a tie going to the even significand. Up to \<open>2^53\<close>
  (9007199254740992) in magnitude every integer is a double; above, the value keeps its 53
  leading bits. A result of magnitude \<open>2^1024\<close> is an infinity: \<open>None\<close> stands for a total
  that is not finite (an infinity, or the NaN of two opposite infinities), which no further
  addition makes finite and which \<open>=== 0\<close> does not accept.
\<close>

definition round_double :: "int \<Rightarrow> int option" where
  "round_double n =
     (let a = \<bar>n\<bar> in
      if a < 9007199254740992 then Some n
      else
        let e = floorlog 2 (nat a) - 53;
            q = a div 2 ^ e;
            r = a mod 2 ^ e;
            h = 2 ^ e div 2;
            m = (if h < r \<or> (r = h \<and> odd q) then q + 1 else q) * 2 ^ e
        in if 2 ^ 1024 \<le> m then None else Some (sgn n * m))"

fun js_add :: "int option \<Rightarrow> int \<Rightarrow> int option" where
  "js_add None v = None"
| "js_add (Some a) v = round_double (a + v)"

text \<open>\<open>validateForm\<close>: the verdict and the state (a toast is added on rejection).\<close>

definition validateForm :: "pf_state \<Rightarrow> bool \<times> pf_state" where
  "validateForm s =
     (let totalScore = foldl js_add (Some 0) (map snd (symptoms s)) in
      if totalScore = Some 0 then
        (False, s\<lparr>toasts := toasts s @
                    [ToastError ''Please provide at least some symptom information'']\<rparr>)
      else (True, s))"

text \<open>
  \<open>handleSubmit\<close> up to its \<open>await\<close>: validation, the two state writes and the call, whose
  arguments are recorded.
\<close>

definition handleSubmit_start :: "string \<Rightarrow> string option \<Rightarrow> pf_state \<Rightarrow> pf_state" where
  "handleSubmit_start diseaseType tok s =
     (case validateForm s of
        (False, s1) \<Rightarrow> s1
      | (True, s1) \<Rightarrow>
          s1\<lparr>formLoading := True, currentStep := StepLoading,
             apiCalls := apiCalls s1 @ [(diseaseType, symptoms s1, tok)]\<rparr>)"

text \<open>\<open>handleSubmit\<close> after the \<open>await\<close>: the \<open>try\<close> body or the \<open>catch\<close>, then \<open>finally\<close>.\<close>

definition handleSubmit_settle :: "api_outcome \<Rightarrow> pf_state \<Rightarrow> pf_state" where
  "handleSubmit_settle outcome s =
     (let s1 =
        (case outcome of
           Resolved response \<Rightarrow>
             if success response then
               s\<lparr>prediction := data response, currentStep := StepResults,
                  toasts := toasts s @ [ToastSuccess ''Prediction completed successfully!'']\<rparr>
             else s
         | Rejected err \<Rightarrow>
             s\<lparr>toasts := toasts s @
                  [ToastError ''Failed to generate prediction. Please try again.''],
                currentStep := StepForm\<rparr>)
      in s1\<lparr>formLoading := False, settled := Suc (settled s1)\<rparr>)"

text \<open>One whole \<open>handleSubmit\<close>, with the outcome the call will have.\<close>

definition handleSubmit :: "api_outcome \<Rightarrow> string \<Rightarrow> string option \<Rightarrow> pf_state \<Rightarrow> pf_state" where
  "handleSubmit outcome diseaseType tok s =
     (if fst (validateForm s) then handleSubmit_settle outcome (handleSubmit_start diseaseType tok s)
      else handleSubmit_start diseaseType tok s)"

definition handleBack :: "pf_state \<Rightarrow> pf_state" where
  "handleBack s =
     (if currentStep s = StepResults then s\<lparr>currentStep := StepForm, prediction := None\<rparr>
      else s\<lparr>navigations := navigations s @ [''/predictions'']\<rparr>)"

subsection \<open>What the rendered page lets the user do\<close>

text \<open>
  The form, with its sliders (one per catalog question) and its submit button, is rendered
  only under \<open>currentStep === 'form'\<close>, and the button is \<open>disabled={loading}\<close>. The page is
  gone once it has navigated away. A call is in flight from its issue until it settles.
\<close>

definition mounted :: "pf_state \<Rightarrow> bool" where
  "mounted s = (navigations s = [])"

definition submit_enabled :: "pf_state \<Rightarrow> bool" where
  "submit_enabled s = (currentStep s = StepForm \<and> \<not> formLoading s)"

definition in_flight :: "pf_state \<Rightarrow> nat" where
  "in_flight s = length (apiCalls s) - settled s"

datatype pf_event = Change string int | Submit | Settle api_outcome | Back

definition slider_keys :: "string \<Rightarrow> string list" where
  "slider_keys diseaseType =
     (case diseaseConfigs_get diseaseType of Own d \<Rightarrow> map key (questions d) | _ \<Rightarrow> [])"

fun dispatch :: "string \<Rightarrow> string option \<Rightarrow> pf_event \<Rightarrow> pf_state \<Rightarrow> pf_state" where
  "dispatch diseaseType tok (Change k v) s =
     (if mounted s \<and> currentStep s = StepForm \<and> k \<in> set (slider_keys diseaseType)
      then handleSymptomChange k v s else s)"
| "dispatch diseaseType tok Submit s =
     (if mounted s \<and> submit_enabled s then handleSubmit_start diseaseType tok s else s)"
| "dispatch diseaseType tok (Settle outcome) s =
     (if mounted s \<and> 0 < in_flight s then handleSubmit_settle outcome s else s)"
| "dispatch diseaseType tok Back s = (if mounted s then handleBack s else s)"

definition pf_run :: "string \<Rightarrow> string option \<Rightarrow> pf_event list \<Rightarrow> pf_state \<Rightarrow> pf_state" where
  "pf_run diseaseType tok evs s = foldl (\<lambda>st ev. dispatch diseaseType tok ev st) s evs"

text \<open>
  What holds of the page between events: every settled call was issued, a call is in flight
  exactly while \<open>loading\<close> is set, and then the page shows the loading step.
\<close>

definition pf_inv :: "pf_state \<Rightarrow> bool" where
  "pf_inv s =
     (settled s \<le> length (apiCalls s) \<and>
      in_flight s = (if formLoading s then 1 else 0) \<and>
      (formLoading s \<longrightarrow> currentStep s = StepLoading))"

definition answers_in_range :: "pf_state \<Rightarrow> bool" where
  "answers_in_range s = list_all (\<lambda>kv. 0 \<le> snd kv \<and> snd kv \<le> 100) (symptoms s)"

subsection \<open>Slider.jsx: where the answers come from\<close>

text \<open>
  \<open>Slider\<close> renders \<open><input type="range" min max step .../>\<close> and calls its \<open>onChange\<close> prop
  with \<open>Number(e.target.value)\<close>. A range input holds its value inside its bounds and on
  its step grid, whatever position is asked of it: below \<open>min\<close> it is \<open>min\<close>, above \<open>max\<close>
  (when \<open>max\<close> is not below \<open>min\<close>) it is \<open>max\<close>, and otherwise the nearest step from
  \<open>min\<close>, the upper one on a tie. The step is 1, as \<open>PredictionForm\<close> passes it.
\<close>

definition range_input_value :: "int \<Rightarrow> int \<Rightarrow> real \<Rightarrow> int" where
  "range_input_value mn mx raw =
     (if raw < of_int mn then mn
      else if mn \<le> mx \<and> of_int mx < raw then mx
      else mn + round (raw - of_int mn))"

text \<open>
  What the user can do on the page. Moving the slider of a question asks its range input
  (\<open>min={0} max={100} step={1}\<close>) for a position, and the input's value reaches
  \<open>handleSymptomChange\<close> under the question's key; the other actions are the page events
  themselves.
\<close>

datatype user_action =
  MoveSlider string real
| PressSubmit
| CallSettles api_outcome
| PressBack

fun deliver :: "user_action \<Rightarrow> pf_event" where
  "deliver (MoveSlider k raw) = Change k (range_input_value 0 100 raw)"
| "deliver PressSubmit = Submit"
| "deliver (CallSettles outcome) = Settle outcome"
| "deliver PressBack = Back"

definition page_run ::
  "string \<Rightarrow> string option \<Rightarrow> user_action list \<Rightarrow> pf_state \<Rightarrow> pf_state" where
  "page_run diseaseType tok acts s = pf_run diseaseType tok (map deliver acts) s"

text \<open>Every answer is within [0,100] and stored under a key of the type's questions.\<close>

definition page_inv :: "string \<Rightarrow> pf_state \<Rightarrow> bool" where
  "page_inv diseaseType s =
     (answers_in_range s \<and> fst ` set (symptoms s) \<subseteq> set (slider_keys diseaseType))"

definition all_answers_zero :: "pf_state \<Rightarrow> bool" where
  "all_answers_zero s = list_all (\<lambda>kv. snd kv = 0) (symptoms s)"

subsection \<open>Risk tiers: \<open>getRiskLevel\<close> (result display) and \<open>getRiskColor\<close> (history display)\<close>

record risk_level =
  level :: string
  color :: string
  bgColor :: string

definition getRiskLevel :: "real \<Rightarrow> risk_level" where
  "getRiskLevel percentage =
     (if percentage < 25 then
        \<lparr>level = ''Low'', color = ''text-green-600'', bgColor = ''bg-green-100''\<rparr>
      else if percentage < 50 then
        \<lparr>level = ''Moderate'', color = ''text-yellow-600'', bgColor = ''bg-yellow-100''\<rparr>
      else if percentage < 75 then
        \<lparr>level = ''High'', color = ''text-orange-600'', bgColor = ''bg-orange-100''\<rparr>
      else \<lparr>level = ''Very High'', color = ''text-red-600'', bgColor = ''bg-red-100''\<rparr>)"

definition getRiskColor :: "real \<Rightarrow> string" where
  "getRiskColor percentage =
     (if percentage < 25 then ''text-green-600 bg-green-100''
      else if percentage < 50 then ''text-yellow-600 bg-yellow-100''
      else if percentage < 75 then ''text-orange-600 bg-orange-100''
      else ''text-red-600 bg-red-100'')"

datatype tier = Low | Moderate | High | VeryHigh

text \<open>The threshold table in the specification's words, to compare the two functions with.\<close>

definition spec_tier :: "real \<Rightarrow> tier" where
  "spec_tier p =
     (if p < 25 then Low
      else if 25 \<le> p \<and> p < 50 then Moderate
      else if 50 \<le> p \<and> p < 75 then High
      else VeryHigh)"

text \<open>The tier a screen shows: by its label on the result card, by its colour classes in the history.\<close>

definition tier_of_level :: "string \<Rightarrow> tier option" where
  "tier_of_level l =
     (if l = ''Low'' then Some Low
      else if l = ''Moderate'' then Some Moderate
      else if l = ''High'' then Some High
      else if l = ''Very High'' then Some VeryHigh
      else None)"

definition tier_of_classes :: "string \<Rightarrow> tier option" where
  "tier_of_classes c =
     (if c = ''text-green-600 bg-green-100'' then Some Low
      else if c = ''text-yellow-600 bg-yellow-100'' then Some Moderate
      else if c = ''text-orange-600 bg-orange-100'' then Some High
      else if c = ''text-red-600 bg-red-100'' then Some VeryHigh
      else None)"

section \<open>Concrete inputs\<close>

text \<open>The account and token of the facade's login response, and the session after that login.\<close>

definition example_profile :: js_object where
  "example_profile =
     [''age'' \<mapsto> JNum 28, ''weight'' \<mapsto> JNum 70, ''height'' \<mapsto> JNum 175,
      ''smoking'' \<mapsto> JBool False, ''drinking'' \<mapsto> JBool True]"

definition example_user :: account where
  "example_user =
     \<lparr>acc_id = ''user-123'', email = ''user@example.com'', profile = Some example_profile\<rparr>"

definition example_session :: "unit auth_state" where
  "example_session =
     login example_user ''dummy-jwt-token-12345'' (checkExistingSession auth_initial)"

text \<open>The same login with the age of the profile at zero.\<close>

definition zero_age_session :: "unit auth_state" where
  "zero_age_session =
     login (example_user\<lparr>profile := Some (example_profile(''age'' \<mapsto> JNum 0))\<rparr>)
       ''dummy-jwt-token-12345'' (checkExistingSession auth_initial)"


text \<open>The diabetes form as mounted (six answers, all zero), and with one slider moved.\<close>

definition diabetes_form :: pf_state where
  "diabetes_form =
     pf_initial\<lparr>symptoms :=
       [(''frequent_urination'', 0), (''excessive_thirst'', 0), (''unexplained_weight_loss'', 0),
        (''fatigue'', 0), (''blurred_vision'', 0), (''slow_healing'', 0)]\<rparr>"

definition diabetes_answered :: pf_state where
  "diabetes_answered = handleSymptomChange ''fatigue'' 40 diabetes_form"

definition diabetes_submitting :: pf_state where
  "diabetes_submitting =
     handleSubmit_start ''diabetes'' (Some ''dummy-jwt-token-12345'') diabetes_answered"

section \<open>Theorems\<close>

lemma auth_step_consistent:
  "auth_consistent s \<Longrightarrow> auth_step op s = Inr s' \<Longrightarrow> auth_consistent s'"
  by (cases op)
     (auto simp: auth_consistent_def checkExistingSession_def login_def logout_def
        updateUserProfile_def split: option.splits)

lemma auth_run_consistent:
  "auth_consistent s \<Longrightarrow> auth_run ops s = Inr s' \<Longrightarrow> auth_consistent s'"
proof (induction ops arbitrary: s)
  case Nil
  then show ?case by simp
next
  case (Cons op ops)
  then obtain s1 where s1: "auth_step op s = Inr s1" and rest: "auth_run ops s1 = Inr s'"
    by (auto split: sum.splits)
  from Cons.prems(1) s1 have "auth_consistent s1" by (rule auth_step_consistent)
  with rest show ?case by (rule Cons.IH [rotated])
qed

text \<open>
  C1. Every session state reached from the initial anonymous state by a run of login,
  logout and profile updates (and the mount effect) has \<open>isAuthenticated\<close> true exactly
  when both the token and the user are present.
\<close>

theorem C1_authenticated_iff_token_and_user:
  "auth_run ops auth_initial = Inr s \<Longrightarrow>
     isAuthenticated s = (token s \<noteq> None \<and> user s \<noteq> None)"
proof -
  assume run: "auth_run ops auth_initial = Inr s"
  have "auth_consistent (auth_initial :: 'a auth_state)"
    by (simp add: auth_consistent_def auth_initial_def)
  from this run have "auth_consistent s" by (rule auth_run_consistent)
  then show ?thesis by (simp add: auth_consistent_def)
qed

theorem C1_authenticated_iff_token_and_user_witness:
  "auth_run [CheckExistingSession, Login example_user ''dummy-jwt-token-12345'']
      (auth_initial :: unit auth_state) = Inr example_session \<and>
   isAuthenticated example_session =
     (token example_session \<noteq> None \<and> user example_session \<noteq> None)"
proof -
  have run: "auth_run [CheckExistingSession, Login example_user ''dummy-jwt-token-12345'']
      (auth_initial :: unit auth_state) = Inr example_session"
    by (simp add: example_session_def)
  from C1_authenticated_iff_token_and_user [OF run] run show ?thesis by simp
qed

text \<open>
  C2. For every session state and requested path the guard gives exactly one of three
  outcomes: the loading indicator exactly when \<open>loading\<close> is true; the redirect to
  \<open>/login\<close>, carrying the requested path, exactly when \<open>loading\<close> is false and the session
  is not authenticated; the protected children exactly when \<open>loading\<close> is false and the
  session is authenticated. While \<open>loading\<close> is true it neither renders the children nor
  redirects anywhere.
\<close>

theorem C2_route_guard:
  "(ProtectedRoute children s pathname = Pending \<longleftrightarrow> loading s) \<and>
   (ProtectedRoute children s pathname = Redirect ''/login'' pathname \<longleftrightarrow>
      \<not> loading s \<and> \<not> isAuthenticated s) \<and>
   (ProtectedRoute children s pathname = Render children \<longleftrightarrow>
      \<not> loading s \<and> isAuthenticated s) \<and>
   ProtectedRoute children s pathname \<in> {Pending, Redirect ''/login'' pathname, Render children} \<and>
   (loading s \<longrightarrow>
      (\<forall>c. ProtectedRoute children s pathname \<noteq> Render c) \<and>
      (\<forall>to from. ProtectedRoute children s pathname \<noteq> Redirect to from))"
  by (simp add: ProtectedRoute_def)

theorem C2_route_guard_witness:
  "loading (auth_initial :: unit auth_state) \<and>
   ProtectedRoute ''Profile'' (auth_initial :: unit auth_state) ''/profile'' = Pending \<and>
   ProtectedRoute ''Profile'' (auth_initial :: unit auth_state) ''/profile'' \<noteq> Render ''Profile'' \<and>
   ProtectedRoute ''Profile'' (auth_initial :: unit auth_state) ''/profile''
     \<noteq> Redirect ''/login'' ''/profile''"
  using C2_route_guard [of "''Profile''" "auth_initial :: unit auth_state" "''/profile''"]
  by (simp add: auth_initial_def)

lemma truthy_typed: "number_or_absent v \<Longrightarrow> truthy v = present_nonzero v"
  by (cases v) simp_all

text \<open>
  Read as a condition, as every caller does, the result of \<open>isProfileComplete\<close> is
  truthy exactly when there is a user with a profile whose age, weight and height are
  all present and nonzero (the fields being numbers or absent); on a typed profile the
  result is never the boolean \<open>true\<close>.
\<close>

lemma isProfileComplete_truthy:
  "(case profile_of s of None \<Rightarrow> True | Some p \<Rightarrow> profile_typed p) \<Longrightarrow>
     truthy (isProfileComplete s) =
       (\<exists>u p. user s = Some u \<and> profile u = Some p \<and>
          present_nonzero (js_get p ''age'') \<and> present_nonzero (js_get p ''weight'') \<and>
          present_nonzero (js_get p ''height'')) \<and>
     (profile_of s = None \<longrightarrow> isProfileComplete s = JBool False)"
  by (auto simp: isProfileComplete_def profile_of_def profile_typed_def js_and_def truthy_typed
      split: option.splits)

lemma isProfileComplete_never_true:
  "(case profile_of s of None \<Rightarrow> True | Some p \<Rightarrow> profile_typed p) \<Longrightarrow>
     isProfileComplete s \<noteq> JBool True"
proof -
  have num: "number_or_absent v \<Longrightarrow> v \<noteq> JBool True" for v
    by (cases v) simp_all
  assume "case profile_of s of None \<Rightarrow> True | Some p \<Rightarrow> profile_typed p"
  then show ?thesis
    by (auto simp: isProfileComplete_def profile_of_def profile_typed_def js_and_def
        split: option.splits dest: num)
qed

text \<open>
  C3 (the code departs from the claim and from its own \<open>@returns {boolean}\<close>). On the
  complete profile of the login scenario (age 28, weight 70, height 175)
  \<open>isProfileComplete()\<close> returns the number 175, not \<open>true\<close>; with the age at zero it
  returns the number 0, not \<open>false\<close>.
\<close>

theorem C3_isProfileComplete_returns_a_number:
  "isProfileComplete example_session = JNum 175 \<and>
   isProfileComplete example_session \<noteq> JBool True \<and>
   isProfileComplete zero_age_session = JNum 0 \<and>
   isProfileComplete zero_age_session \<noteq> JBool False"
  by (simp add: isProfileComplete_def example_session_def zero_age_session_def login_def
      example_user_def example_profile_def js_get_def js_and_def)

lemma seed_symptoms:
  "map_of diseaseConfigs diseaseType = Some d \<Longrightarrow>
     foldl (\<lambda>initialSymptoms q. AList.update (key q) 0 initialSymptoms) [] (questions d) =
       map (\<lambda>q. (key q, 0)) (questions d)"
  by (auto simp: diseaseConfigs_def diabetes_config_def heart_disease_config_def
      thyroid_config_def split: if_splits)

text \<open>
  Off the names of \<open>Object.prototype\<close> the mount turns a type outside the catalog away
  first, then an incomplete profile, and otherwise seeds the answers with the catalog keys
  of the type, each at 0, on the form step.
\<close>

lemma pf_mount_off_prototype:
  "diseaseType \<notin> set object_prototype_names \<Longrightarrow>
     pf_mount diseaseType auth =
       (case map_of diseaseConfigs diseaseType of
          None \<Rightarrow>
            Inr (pf_initial\<lparr>toasts := [ToastError ''Invalid disease type''],
                   navigations := [''/predictions'']\<rparr>)
        | Some d \<Rightarrow>
            if \<not> truthy (isProfileComplete auth) then
              Inr (pf_initial\<lparr>toasts := [ToastError ''Please complete your profile first''],
                     navigations := [''/profile'']\<rparr>)
            else Inr (pf_initial\<lparr>currentStep := StepForm,
                        symptoms := map (\<lambda>q. (key q, 0)) (questions d)\<rparr>))"
  by (simp add: pf_mount_def initialize_def diseaseConfigs_get_def seed_symptoms pf_initial_def
      split: option.splits)

text \<open>
  C4 (the code departs from the claim). The type string \<open>constructor\<close> is not a catalog
  entry, yet the property read \<open>diseaseConfigs['constructor']\<close> finds the inherited
  \<open>Object.prototype.constructor\<close>, so the unknown-type branch is not taken: with a complete
  profile the mount (and the effect on its own) ends in a TypeError instead of the
  "Invalid disease type" redirect.
\<close>

theorem C4_inherited_name_not_rejected:
  "map_of diseaseConfigs ''constructor'' = None \<and>
   truthy (isProfileComplete example_session) \<and>
   initialize ''constructor'' example_session pf_initial = Inl TypeError \<and>
   pf_mount ''constructor'' example_session = Inl TypeError"
  by (simp add: pf_mount_def initialize_def diseaseConfigs_get_def diseaseConfigs_def
      object_prototype_names_def isProfileComplete_def example_session_def login_def
      example_user_def example_profile_def js_get_def js_and_def)

lemma round_double_exact: "\<bar>n\<bar> < 9007199254740992 \<Longrightarrow> round_double n = Some n"
  by (simp add: round_double_def)

text \<open>The sum of answers within [0,100] is exact, for any number of them a page can hold.\<close>

lemma foldl_js_add_exact:
  "list_all (\<lambda>v. 0 \<le> v \<and> v \<le> 100) xs \<Longrightarrow> 0 \<le> a \<Longrightarrow>
     a + 100 * int (length xs) < 9007199254740992 \<Longrightarrow>
     foldl js_add (Some a) xs = Some (a + sum_list xs)"
proof (induction xs arbitrary: a)
  case Nil
  then show ?case by simp
next
  case (Cons x xs)
  then have "round_double (a + x) = Some (a + x)"
    by (intro round_double_exact) simp
  with Cons show ?case by (simp add: add.assoc)
qed

text \<open>Beyond \<open>2^53\<close> it is not: \<open>2^53 + 1\<close> is \<open>2^53\<close> again, so this total is 0.\<close>

lemma foldl_js_add_rounds:
  "foldl js_add (Some 0) [9007199254740992, 1, - 9007199254740992] = Some 0"
  by (simp add: round_double_def Let_def compute_floorlog)

lemma all_zero_sum:
  "list_all (\<lambda>kv. snd kv = 0) xs \<Longrightarrow> foldl js_add (Some 0) (map snd xs) = Some 0"
  by (induction xs) (simp_all add: round_double_exact)

lemma validateForm_all_zero:
  "all_answers_zero s \<Longrightarrow>
     validateForm s =
       (False, s\<lparr>toasts := toasts s @
          [ToastError ''Please provide at least some symptom information'']\<rparr>)"
  by (simp add: validateForm_def all_answers_zero_def all_zero_sum)

lemma validateForm_cases:
  "validateForm s = (True, s) \<or>
   validateForm s = (False, s\<lparr>toasts := toasts s @
      [ToastError ''Please provide at least some symptom information'']\<rparr>)"
  by (simp add: validateForm_def Let_def)

text \<open>
  C5. When every answer is zero, \<open>handleSubmit\<close> is rejected by \<open>validateForm\<close>: no scoring
  call is issued (whatever outcome a call would have had), the step stays what it was (so
  Form stays Form) and the answers are unchanged; one error toast is shown.
\<close>

theorem C5_submit_all_zero_rejected:
  "all_answers_zero s \<Longrightarrow>
     apiCalls (handleSubmit outcome diseaseType tok s) = apiCalls s \<and>
     in_flight (handleSubmit outcome diseaseType tok s) = in_flight s \<and>
     currentStep (handleSubmit outcome diseaseType tok s) = currentStep s \<and>
     symptoms (handleSubmit outcome diseaseType tok s) = symptoms s \<and>
     toasts (handleSubmit outcome diseaseType tok s) =
       toasts s @ [ToastError ''Please provide at least some symptom information'']"
  by (simp add: handleSubmit_def handleSubmit_start_def validateForm_all_zero in_flight_def)

theorem C5_submit_all_zero_rejected_witness:
  "all_answers_zero diabetes_form \<and> currentStep diabetes_form = StepForm \<and>
   apiCalls (handleSubmit (Rejected ''Network Error'') ''diabetes''
      (Some ''dummy-jwt-token-12345'') diabetes_form) = [] \<and>
   currentStep (handleSubmit (Rejected ''Network Error'') ''diabetes''
      (Some ''dummy-jwt-token-12345'') diabetes_form) = StepForm \<and>
   symptoms (handleSubmit (Rejected ''Network Error'') ''diabetes''
      (Some ''dummy-jwt-token-12345'') diabetes_form) = symptoms diabetes_form"
proof -
  have z: "all_answers_zero diabetes_form"
    by (simp add: all_answers_zero_def diabetes_form_def)
  from C5_submit_all_zero_rejected [OF z, of "Rejected ''Network Error''" "''diabetes''"
      "Some ''dummy-jwt-token-12345''"] z
  show ?thesis by (simp add: diabetes_form_def pf_initial_def)
qed

text \<open>
  When the form passes validation and the promise of the scoring call rejects, with any
  error, \<open>handleSubmit\<close> ends on the form step with the answers exactly as they were,
  exactly one more toast, an error toast, and \<open>loading\<close> cleared.
\<close>

lemma handleSubmit_rejected:
  "fst (validateForm s) \<Longrightarrow>
     currentStep (handleSubmit (Rejected err) diseaseType tok s) = StepForm \<and>
     symptoms (handleSubmit (Rejected err) diseaseType tok s) = symptoms s \<and>
     toasts (handleSubmit (Rejected err) diseaseType tok s) =
       toasts s @ [ToastError ''Failed to generate prediction. Please try again.''] \<and>
     apiCalls (handleSubmit (Rejected err) diseaseType tok s) =
       apiCalls s @ [(diseaseType, symptoms s, tok)] \<and>
     \<not> formLoading (handleSubmit (Rejected err) diseaseType tok s) \<and>
     prediction (handleSubmit (Rejected err) diseaseType tok s) = prediction s"
  using validateForm_cases [of s]
  by (auto simp: handleSubmit_def handleSubmit_start_def handleSubmit_settle_def Let_def)


lemma start_inv: "pf_inv s \<Longrightarrow> submit_enabled s \<Longrightarrow> pf_inv (handleSubmit_start diseaseType tok s)"
  using validateForm_cases [of s]
  by (auto simp: pf_inv_def submit_enabled_def handleSubmit_start_def in_flight_def)

lemma settle_inv: "pf_inv s \<Longrightarrow> 0 < in_flight s \<Longrightarrow> pf_inv (handleSubmit_settle outcome s)"
  by (cases outcome)
     (auto simp: pf_inv_def handleSubmit_settle_def in_flight_def Let_def split: if_splits)

lemma change_inv: "pf_inv s \<Longrightarrow> pf_inv (handleSymptomChange k v s)"
  by (simp add: pf_inv_def handleSymptomChange_def in_flight_def)

lemma back_inv: "pf_inv s \<Longrightarrow> pf_inv (handleBack s)"
  by (auto simp: pf_inv_def handleBack_def in_flight_def)

lemma dispatch_inv: "pf_inv s \<Longrightarrow> pf_inv (dispatch diseaseType tok ev s)"
  by (cases ev) (simp_all add: start_inv settle_inv change_inv back_inv)

lemma pf_run_inv: "pf_inv s \<Longrightarrow> pf_inv (pf_run diseaseType tok evs s)"
  unfolding pf_run_def
  by (induction evs arbitrary: s) (simp_all add: dispatch_inv)

lemma pf_mount_inv: "pf_mount diseaseType auth = Inr s0 \<Longrightarrow> pf_inv s0"
  by (auto simp: pf_mount_def initialize_def pf_initial_def pf_inv_def in_flight_def Let_def
      split: if_splits js_member.splits)

lemma mount_diabetes: "pf_mount ''diabetes'' example_session = Inr diabetes_form"
  by (simp add: pf_mount_def initialize_def diseaseConfigs_get_def diseaseConfigs_def
      diabetes_config_def diabetes_form_def
      isProfileComplete_def example_session_def login_def
      example_user_def example_profile_def js_get_def js_and_def)

lemma run_diabetes:
  "pf_run ''diabetes'' (Some ''dummy-jwt-token-12345'') [Change ''fatigue'' 40, Submit, Submit]
     diabetes_form = diabetes_submitting"
  by (simp add: pf_run_def diabetes_submitting_def diabetes_answered_def diabetes_form_def
      pf_initial_def handleSubmit_start_def handleSymptomChange_def validateForm_def round_double_def mounted_def
      submit_enabled_def slider_keys_def diseaseConfigs_get_def diseaseConfigs_def
      diabetes_config_def)

text \<open>
  C7, as stated, fails on \<open>handleSubmit\<close>: it checks no phase and knows no InvalidState.
  Run on a page that is already on the loading step, with a call in flight, it issues a
  second call and reports nothing.
\<close>

theorem C7_handleSubmit_has_no_phase_check:
  "currentStep diabetes_submitting = StepLoading \<and>
   length (apiCalls diabetes_submitting) = 1 \<and>
   length (apiCalls (handleSubmit_start ''diabetes'' (Some ''dummy-jwt-token-12345'')
      diabetes_submitting)) = 2 \<and>
   toasts (handleSubmit_start ''diabetes'' (Some ''dummy-jwt-token-12345'')
      diabetes_submitting) = toasts diabetes_submitting"
  by (simp add: diabetes_submitting_def diabetes_answered_def diabetes_form_def pf_initial_def
      handleSubmit_start_def handleSymptomChange_def validateForm_def round_double_def)

text \<open>
  C7, amended. The exclusion is in what the page renders: the form and its submit button
  exist only on the form step, and the button is disabled while \<open>loading\<close>. In every state
  a mounted page reaches through its events (slider changes, submits, settling calls,
  Back), at most one scoring call is in flight; while one is in flight the page is on the
  loading step; and on the loading step a submit event changes nothing, so it issues no
  call. No error is raised for it.
\<close>

theorem C7_single_call_in_flight:
  "pf_mount diseaseType auth = Inr s0 \<Longrightarrow>
     in_flight (pf_run diseaseType tok evs s0) \<le> 1 \<and>
     (0 < in_flight (pf_run diseaseType tok evs s0) \<longrightarrow>
        currentStep (pf_run diseaseType tok evs s0) = StepLoading) \<and>
     (currentStep (pf_run diseaseType tok evs s0) = StepLoading \<longrightarrow>
        dispatch diseaseType tok Submit (pf_run diseaseType tok evs s0) =
          pf_run diseaseType tok evs s0)"
proof -
  assume "pf_mount diseaseType auth = Inr s0"
  then have "pf_inv s0" by (rule pf_mount_inv)
  then have "pf_inv (pf_run diseaseType tok evs s0)" by (rule pf_run_inv)
  then show ?thesis
    by (auto simp: pf_inv_def submit_enabled_def split: if_splits)
qed

theorem C7_single_call_in_flight_witness:
  "pf_mount ''diabetes'' example_session = Inr diabetes_form \<and>
   pf_run ''diabetes'' (Some ''dummy-jwt-token-12345'') [Change ''fatigue'' 40, Submit, Submit]
      diabetes_form = diabetes_submitting \<and>
   currentStep diabetes_submitting = StepLoading \<and> in_flight diabetes_submitting = 1 \<and>
   dispatch ''diabetes'' (Some ''dummy-jwt-token-12345'') Submit diabetes_submitting =
     diabetes_submitting"
proof -
  have step: "currentStep diabetes_submitting = StepLoading"
    and fl: "in_flight diabetes_submitting = 1"
    by (simp_all add: diabetes_submitting_def diabetes_answered_def diabetes_form_def
        pf_initial_def handleSubmit_start_def handleSymptomChange_def validateForm_def
        round_double_def in_flight_def)
  from C7_single_call_in_flight [OF mount_diabetes, of "Some ''dummy-jwt-token-12345''"
      "[Change ''fatigue'' 40, Submit, Submit]"]
  show ?thesis using step fl mount_diabetes by (simp add: run_diabetes)
qed

text \<open>
  C8. For every percentage (so for every one in [0,100]) the label \<open>getRiskLevel\<close> gives the
  result display and the colour classes \<open>getRiskColor\<close> gives the history display both
  stand for the tier of the threshold table: Low below 25, Moderate from 25 to below 50,
  High from 50 to below 75, Very High from 75. The two functions agree on every
  percentage: the history classes are the colour and background of the result's level.
\<close>

theorem C8_risk_tiers_agree:
  "tier_of_level (level (getRiskLevel p)) = Some (spec_tier p) \<and>
   tier_of_classes (getRiskColor p) = Some (spec_tier p) \<and>
   getRiskColor p = color (getRiskLevel p) @ '' '' @ bgColor (getRiskLevel p)"
  by (simp add: getRiskLevel_def getRiskColor_def spec_tier_def tier_of_level_def
      tier_of_classes_def)

theorem C8_risk_tiers_agree_witness:
  "tier_of_level (level (getRiskLevel 25)) = Some Moderate \<and>
   tier_of_classes (getRiskColor 25) = Some Moderate \<and>
   tier_of_level (level (getRiskLevel 75)) = Some VeryHigh \<and>
   tier_of_classes (getRiskColor 75) = Some VeryHigh"
proof -
  have t: "spec_tier 25 = Moderate" "spec_tier 75 = VeryHigh"
    by (simp_all add: spec_tier_def)
  from C8_risk_tiers_agree [of 25]
  have a: "tier_of_level (level (getRiskLevel 25)) = Some (spec_tier 25)"
    and b: "tier_of_classes (getRiskColor 25) = Some (spec_tier 25)" by blast+
  from C8_risk_tiers_agree [of 75]
  have c: "tier_of_level (level (getRiskLevel 75)) = Some (spec_tier 75)"
    and d: "tier_of_classes (getRiskColor 75) = Some (spec_tier 75)" by blast+
  from a b c d t show ?thesis by simp
qed

text \<open>
  With a user present, \<open>updateUserProfile\<close> succeeds and changes the user's profile only:
  the new profile has, at each key, the value of the partial profile where it has the key
  and the old profile's value (nothing, when there was no profile) elsewhere; the id, the
  email and every other property of the user, and the token, \<open>isAuthenticated\<close> and
  \<open>loading\<close>, are unchanged.
\<close>

lemma updateUserProfile_frame:
  "user s = Some u \<Longrightarrow>
     \<exists>s' u' p'. updateUserProfile upd s = Inr s' \<and> user s' = Some u' \<and> profile u' = Some p' \<and>
       (\<forall>k. p' k = (case upd k of Some v \<Rightarrow> Some v | None \<Rightarrow> spread (profile u) k)) \<and>
       acc_id u' = acc_id u \<and> email u' = email u \<and> account.more u' = account.more u \<and>
       token s' = token s \<and> isAuthenticated s' = isAuthenticated s \<and>
       loading s' = loading s \<and> auth_state.more s' = auth_state.more s"
  by (auto simp: updateUserProfile_def map_add_def split: option.splits)

text \<open>
  C9 (the code departs from the claim). With no user in the session the update is not a
  silent no-op that leaves the state as it was: the updater reads \<open>prev.profile\<close> of the
  null user without the guard the other reads of the user have, and throws a TypeError.
\<close>

theorem C9_update_without_user_throws:
  "user (auth_initial :: unit auth_state) = None \<and>
   updateUserProfile example_profile (auth_initial :: unit auth_state) = Inl TypeError \<and>
   updateUserProfile example_profile (auth_initial :: unit auth_state) \<noteq> Inr auth_initial"
  by (simp add: updateUserProfile_def auth_initial_def)

lemma map_of_update: "map_of (AList.update k v xs) = (map_of xs)(k \<mapsto> v)"
  by (rule AList.update_conv')

lemma list_all_update:
  "list_all P xs \<Longrightarrow> P (k, v) \<Longrightarrow> list_all P (AList.update k v xs)"
  by (induction xs) auto

lemma update_mem: "(k, v) \<in> set (AList.update k v xs)"
  by (induction xs) auto

lemma dom_update: "fst ` set (AList.update k v xs) = insert k (fst ` set xs)"
  by (simp add: AList.dom_update)

lemma range_input_value_bounds:
  "0 \<le> range_input_value 0 100 raw \<and> range_input_value 0 100 raw \<le> 100"
proof (cases "raw < 0 \<or> 100 < raw")
  case True
  then show ?thesis by (auto simp: range_input_value_def)
next
  case False
  then have lo: "0 \<le> raw" and hi: "raw \<le> 100" by simp_all
  from lo have "round (0::real) \<le> round raw" by (rule round_mono)
  moreover from hi have "round raw \<le> round (100::real)" by (rule round_mono)
  ultimately show ?thesis using False by (simp add: range_input_value_def)
qed

lemma range_input_value_clamps:
  "(100 \<le> raw \<longrightarrow> range_input_value 0 100 raw = 100) \<and>
   (raw \<le> 0 \<longrightarrow> range_input_value 0 100 raw = 0) \<and>
   (0 \<le> n \<and> n \<le> 100 \<longrightarrow> range_input_value 0 100 (of_int n) = n)"
  by (auto simp: range_input_value_def)

lemma change_page_inv:
  "page_inv diseaseType s \<Longrightarrow> k \<in> set (slider_keys diseaseType) \<Longrightarrow> 0 \<le> v \<Longrightarrow> v \<le> 100 \<Longrightarrow>
     page_inv diseaseType (handleSymptomChange k v s)"
  by (simp add: page_inv_def answers_in_range_def handleSymptomChange_def list_all_update
      dom_update)

lemma start_symptoms: "symptoms (handleSubmit_start diseaseType tok s) = symptoms s"
  using validateForm_cases [of s] by (auto simp: handleSubmit_start_def)

lemma settle_symptoms: "symptoms (handleSubmit_settle outcome s) = symptoms s"
  by (cases outcome) (simp_all add: handleSubmit_settle_def Let_def)

lemma back_symptoms: "symptoms (handleBack s) = symptoms s"
  by (simp add: handleBack_def)

lemma deliver_page_inv:
  "page_inv diseaseType s \<Longrightarrow> page_inv diseaseType (dispatch diseaseType tok (deliver a) s)"
proof (cases a)
  case (MoveSlider k raw)
  then show "page_inv diseaseType s \<Longrightarrow> ?thesis"
    using range_input_value_bounds [of raw] by (simp add: change_page_inv)
qed (simp_all add: page_inv_def answers_in_range_def start_symptoms settle_symptoms back_symptoms)

lemma page_run_snoc:
  "page_run diseaseType tok (acts @ [a]) s =
     dispatch diseaseType tok (deliver a) (page_run diseaseType tok acts s)"
  by (simp add: page_run_def pf_run_def)

lemma page_run_inv:
  "page_inv diseaseType s \<Longrightarrow> page_inv diseaseType (page_run diseaseType tok acts s)"
proof (induction acts rule: rev_induct)
  case Nil
  then show ?case by (simp add: page_run_def pf_run_def)
next
  case (snoc a acts)
  then show ?case by (simp add: page_run_snoc deliver_page_inv)
qed

lemma pf_mount_page_inv: "pf_mount diseaseType auth = Inr s0 \<Longrightarrow> page_inv diseaseType s0"
proof -
  assume m: "pf_mount diseaseType auth = Inr s0"
  show ?thesis
  proof (cases "diseaseConfigs_get diseaseType")
    case (Own d)
    then have d: "map_of diseaseConfigs diseaseType = Some d"
      by (auto simp: diseaseConfigs_get_def split: option.splits if_splits)
    from m Own have "symptoms s0 = [] \<or> symptoms s0 = map (\<lambda>q. (key q, 0)) (questions d)"
      by (auto simp: pf_mount_def initialize_def pf_initial_def Let_def seed_symptoms [OF d]
          split: if_splits)
    with Own show ?thesis
      by (auto simp: page_inv_def answers_in_range_def slider_keys_def list_all_iff)
  next
    case Inherited
    with m show ?thesis by (simp add: pf_mount_def)
  next
    case NoMember
    with m show ?thesis
      by (auto simp: pf_mount_def initialize_def pf_initial_def page_inv_def
          answers_in_range_def)
  qed
qed

text \<open>
  The handler on its own stores what it is given: \<open>handleSymptomChange\<close> checks neither the
  key nor the value. The key and the range are the slider's.
\<close>

lemma handleSymptomChange_stores:
  "map_of (symptoms (handleSymptomChange k v s)) = (map_of (symptoms s))(k \<mapsto> v)"
  by (simp add: handleSymptomChange_def map_of_update)

text \<open>
  C10. On a mounted page, in any state \<open>s\<close> the user's actions have led to, setting an
  answer is moving the slider of a question: for every key and every position asked for,
  the value that arrives is an integer within [0,100], a position beyond a bound being
  clamped to it (150 becomes 100) and an integer within the bounds arriving as it is; a
  key that is not a question of the active type, or a page not on the form step, leaves
  the answers unchanged; otherwise the value is stored under the key and the other
  answers are kept. So before and after any such change every stored answer lies within
  [0,100], under a key of the type's questions.
\<close>

theorem C10_setAnswer_within_range:
  "pf_mount diseaseType auth = Inr s0 \<Longrightarrow>
   s = page_run diseaseType tok acts s0 \<Longrightarrow>
   s' = dispatch diseaseType tok (deliver (MoveSlider k raw)) s \<Longrightarrow>
     answers_in_range s \<and> answers_in_range s' \<and>
     fst ` set (symptoms s') \<subseteq> set (slider_keys diseaseType) \<and>
     (k \<notin> set (slider_keys diseaseType) \<or> currentStep s \<noteq> StepForm \<longrightarrow> s' = s) \<and>
     (k \<in> set (slider_keys diseaseType) \<and> currentStep s = StepForm \<and> mounted s \<longrightarrow>
        map_of (symptoms s') = (map_of (symptoms s))(k \<mapsto> range_input_value 0 100 raw)) \<and>
     0 \<le> range_input_value 0 100 raw \<and> range_input_value 0 100 raw \<le> 100 \<and>
     (100 \<le> raw \<longrightarrow> range_input_value 0 100 raw = 100) \<and>
     (raw \<le> 0 \<longrightarrow> range_input_value 0 100 raw = 0) \<and>
     (\<forall>n. 0 \<le> n \<and> n \<le> 100 \<longrightarrow> range_input_value 0 100 (of_int n) = n)"
proof -
  assume m: "pf_mount diseaseType auth = Inr s0"
    and s: "s = page_run diseaseType tok acts s0"
    and s': "s' = dispatch diseaseType tok (deliver (MoveSlider k raw)) s"
  from m have "page_inv diseaseType s0" by (rule pf_mount_page_inv)
  then have inv: "page_inv diseaseType s" unfolding s by (rule page_run_inv)
  then have inv': "page_inv diseaseType s'" unfolding s' by (rule deliver_page_inv)
  have stored: "k \<in> set (slider_keys diseaseType) \<and> currentStep s = StepForm \<and> mounted s \<longrightarrow>
        map_of (symptoms s') = (map_of (symptoms s))(k \<mapsto> range_input_value 0 100 raw)"
    by (simp add: s' handleSymptomChange_stores)
  have kept: "k \<notin> set (slider_keys diseaseType) \<or> currentStep s \<noteq> StepForm \<longrightarrow> s' = s"
    by (auto simp: s')
  from inv inv' stored kept range_input_value_bounds [of raw] range_input_value_clamps
  show ?thesis by (simp add: page_inv_def)
qed

theorem C10_setAnswer_within_range_witness:
  "pf_mount ''diabetes'' example_session = Inr diabetes_form \<and>
   answers_in_range (dispatch ''diabetes'' None
      (deliver (MoveSlider ''frequent_urination'' 150)) diabetes_form) \<and>
   map_of (symptoms (dispatch ''diabetes'' None
      (deliver (MoveSlider ''frequent_urination'' 150)) diabetes_form)) ''frequent_urination''
     = Some 100"
proof -
  have run: "diabetes_form = page_run ''diabetes'' None [] diabetes_form"
    by (simp add: page_run_def pf_run_def)
  have k: "''frequent_urination'' \<in> set (slider_keys ''diabetes'')"
    by (simp add: slider_keys_def diseaseConfigs_get_def diseaseConfigs_def diabetes_config_def)
  have f: "currentStep diabetes_form = StepForm" "mounted diabetes_form"
    by (simp_all add: diabetes_form_def pf_initial_def mounted_def)
  note c = C10_setAnswer_within_range [OF mount_diabetes run refl, of "''frequent_urination''" 150]
  from c have a: "answers_in_range (dispatch ''diabetes'' None
      (deliver (MoveSlider ''frequent_urination'' 150)) diabetes_form)"
    by blast
  from c k f have b: "map_of (symptoms (dispatch ''diabetes'' None
      (deliver (MoveSlider ''frequent_urination'' 150)) diabetes_form)) =
      (map_of (symptoms diabetes_form))(''frequent_urination'' \<mapsto> range_input_value 0 100 150)"
    by blast
  from c have v: "range_input_value 0 100 150 = 100" by simp
  from b have "map_of (symptoms (dispatch ''diabetes'' None
      (deliver (MoveSlider ''frequent_urination'' 150)) diabetes_form)) ''frequent_urination''
     = Some (range_input_value 0 100 150)"
    by simp
  with v a mount_diabetes show ?thesis by simp
qed

end
